theory Spec2Isabelle
  imports Main "HOL-Library.Sublist"
begin

section \<open>The model-listing script \<open>list_models.py\<close>\<close>

text \<open>
  The script reads the API key from the process environment, configures the client of the
  remote service with it, iterates over the models the service lists and prints a block of
  four lines for every model that supports content generation. Everything it does to the
  outside world is recorded here as a trace of events, in the order of execution.

  The client library and the Python runtime are the surroundings of the script. What
  matters of them is what the script can observe: the value of the environment variable,
  the descriptors the listing yields and the exception that may end it.

  The script is given twice. In the first, \<open>run\<close>, writing to standard output does
  not fail. The second, \<open>run_io\<close>, drops this: standard output has an encoding, and a
  \<open>print\<close> whose text the encoding lacks raises. On a standard output that takes every
  text the two are the same.
\<close>

subsection \<open>Data\<close>

text \<open>
  A model descriptor as the client library hands it to the loop: the three attributes the
  script reads. Text is a byte string in UTF-8.
\<close>

record model =
  name :: string
  display_name :: string
  supported_generation_methods :: "string list"

text \<open>
  What a call into the client library can raise. The handler of the script is
  \<open>except Exception as e\<close>: it catches the instances of \<open>Exception\<close>, which are Python's
  errors, and \<open>str(e)\<close> is the text it prints. \<open>KeyboardInterrupt\<close>, \<open>SystemExit\<close> and
  \<open>GeneratorExit\<close> derive from \<open>BaseException\<close> only, and the handler lets them pass;
  they are kept with the name of their class.
\<close>

datatype raised = Exception string | BaseException_only string

text \<open>
  The iterable that \<open>genai.list_models()\<close> returns, as the \<open>for\<close> statement sees it:
  every request for the next item yields a descriptor, ends the iteration or raises. The
  sequence is finite. A failure of the call itself, before any item, is \<open>Raise\<close> at the
  head.
\<close>

datatype iter = Stop | Yield model iter | Raise raised

text \<open>
  The surroundings of one run: the process environment as \<open>load_dotenv()\<close> leaves it, and
  the service, which answers according to the key the client was configured with.
\<close>

record world =
  environ :: "string \<rightharpoonup> string"
  list_models :: "string \<Rightarrow> iter"

text \<open>The effects of a run, and how the process ends.\<close>

datatype event = Configure string | List_Models | Print string

datatype status = Completed | Uncaught raised

subsection \<open>Text\<close>

text \<open>The glyph U+274C that opens both diagnostics, in UTF-8.\<close>

definition cross_mark :: string where
  "cross_mark = [CHR 0xE2, CHR 0x9D, CHR 0x8C]"

definition missing_key_msg :: string where
  "missing_key_msg = cross_mark @ '' Error: API Key not found in .env file.''"

text \<open>The progress literal of the script ends in a line feed of its own.\<close>

definition progress_msg :: string where
  "progress_msg = ''Fetching available models...'' @ [CHR 0x0A]"

definition fetch_error_msg :: "string \<Rightarrow> string" where
  "fetch_error_msg e = cross_mark @ '' Error fetching models: '' @ e"

text \<open>\<open>sep.join(xs)\<close> of Python.\<close>

fun join :: "string \<Rightarrow> string list \<Rightarrow> string" where
  "join sep [] = []"
| "join sep [x] = x"
| "join sep (x # y # ys) = x @ sep @ join sep (y # ys)"

text \<open>
  An f-string formats a list as \<open>str\<close> does: the \<open>repr\<close> of every element, separated by a
  comma and a space, in square brackets. The \<open>repr\<close> of a string belongs to the Python
  runtime (its quoting and escaping depend on the Unicode tables), so it is the parameter
  \<open>r\<close> of everything that prints.
\<close>

definition str_list :: "(string \<Rightarrow> string) \<Rightarrow> string list \<Rightarrow> string" where
  "str_list r xs = ''['' @ join '', '' (map r xs) @ '']''"

text \<open>\<open>s * n\<close> of Python on a string.\<close>

definition times :: "string \<Rightarrow> nat \<Rightarrow> string" where
  "times s n = concat (replicate n s)"

subsection \<open>The script\<close>

text \<open>\<open>os.getenv\<close>: the value of the variable, or \<open>None\<close>.\<close>

definition getenv :: "(string \<rightharpoonup> string) \<Rightarrow> string \<Rightarrow> string option" where
  "getenv env k = env k"

text \<open>The truth value of an optional string: \<open>None\<close> and the empty string are false.\<close>

fun truthy :: "string option \<Rightarrow> bool" where
  "truthy None = False"
| "truthy (Some s) = (s \<noteq> [])"

text \<open>The body of the loop, for one descriptor \<open>m\<close>.\<close>

definition loop_body :: "(string \<Rightarrow> string) \<Rightarrow> model \<Rightarrow> event list" where
  "loop_body r m =
     (if ''generateContent'' \<in> set (supported_generation_methods m) then
        [Print (''Model Name: '' @ name m),
         Print (''Display Name: '' @ display_name m),
         Print (''Methods: '' @ str_list r (supported_generation_methods m)),
         Print (times ''-'' 30)]
      else [])"

text \<open>
  The \<open>for\<close> statement: the events of the iterations that ran, and the exception that
  ended it, if one did.
\<close>

fun for_loop :: "(string \<Rightarrow> string) \<Rightarrow> iter \<Rightarrow> event list \<times> raised option" where
  "for_loop r Stop = ([], None)"
| "for_loop r (Raise e) = ([], Some e)"
| "for_loop r (Yield m rest) =
     (case for_loop r rest of (evs, res) \<Rightarrow> (loop_body r m @ evs, res))"

text \<open>The \<open>try\<close> statement around the loop, with its one handler.\<close>

definition try_fetch :: "(string \<Rightarrow> string) \<Rightarrow> iter \<Rightarrow> event list \<times> status" where
  "try_fetch r it =
     (case for_loop r it of
        (evs, None) \<Rightarrow> (List_Models # evs, Completed)
      | (evs, Some (Exception e)) \<Rightarrow> (List_Models # evs @ [Print (fetch_error_msg e)], Completed)
      | (evs, Some (BaseException_only c)) \<Rightarrow> (List_Models # evs, Uncaught (BaseException_only c)))"

text \<open>
  The whole script, top to bottom. Loading the configuration file and configuring the
  client do not fail. In the \<open>else\<close> branch the key is a non-empty string.
\<close>

definition run :: "(string \<Rightarrow> string) \<Rightarrow> world \<Rightarrow> event list \<times> status" where
  "run r w =
     (let api_key = getenv (environ w) ''GEMINI_API_KEY'' in
      if \<not> truthy api_key then ([Print missing_key_msg], Completed)
      else
        (case api_key of
           None \<Rightarrow> ([Print missing_key_msg], Completed)
         | Some k \<Rightarrow>
             (case try_fetch r (list_models w k) of
                (evs, st) \<Rightarrow> (Configure k # Print progress_msg # evs, st))))"

subsection \<open>Reading a trace\<close>






subsection \<open>A standard output that can refuse a text\<close>

text \<open>
  The script above writes to a standard output that takes every text. A real one has an
  encoding, and \<open>print\<close> raises \<open>UnicodeEncodeError\<close>, an instance of \<open>Exception\<close>, when
  a character of its argument is missing from it; nothing of the line is then written. A
  console says which texts its encoding has, and gives the \<open>str\<close> of the error it raises
  for the others.
\<close>

record console =
  encodes :: "string \<Rightarrow> bool"
  encode_error :: "string \<Rightarrow> string"

text \<open>One \<open>print\<close> call: the events it leaves, and the exception it raises, if any.\<close>

definition print_io :: "console \<Rightarrow> string \<Rightarrow> event list \<times> raised option" where
  "print_io c s =
     (if encodes c s then ([Print s], None)
      else ([], Some (Exception (encode_error c s))))"

text \<open>
  One statement after another: when the first raises, the second does not run.
\<close>

fun then_do ::
  "event list \<times> raised option \<Rightarrow> event list \<times> raised option \<Rightarrow> event list \<times> raised option" where
  "then_do (evs, Some e) _ = (evs, Some e)"
| "then_do (evs, None) (evs', res) = (evs @ evs', res)"

text \<open>The body of the loop again, every \<open>print\<close> of it able to raise.\<close>

definition loop_body_io ::
  "console \<Rightarrow> (string \<Rightarrow> string) \<Rightarrow> model \<Rightarrow> event list \<times> raised option" where
  "loop_body_io c r m =
     (if ''generateContent'' \<in> set (supported_generation_methods m) then
        then_do (print_io c (''Model Name: '' @ name m))
       (then_do (print_io c (''Display Name: '' @ display_name m))
       (then_do (print_io c (''Methods: '' @ str_list r (supported_generation_methods m)))
                (print_io c (times ''-'' 30))))
      else ([], None))"

text \<open>
  The \<open>for\<close> statement: an exception of the body ends it as one of the iterator does, and
  the iterator is not asked for another item.
\<close>

fun for_loop_io ::
  "console \<Rightarrow> (string \<Rightarrow> string) \<Rightarrow> iter \<Rightarrow> event list \<times> raised option" where
  "for_loop_io c r Stop = ([], None)"
| "for_loop_io c r (Raise e) = ([], Some e)"
| "for_loop_io c r (Yield m rest) = then_do (loop_body_io c r m) (for_loop_io c r rest)"

text \<open>
  The \<open>try\<close> statement: the handler takes an instance of \<open>Exception\<close>, whether the
  iterator or the body raised it, and prints; what its own \<open>print\<close> raises leaves the
  statement, as does everything that is not an \<open>Exception\<close>.
\<close>

definition try_fetch_io ::
  "console \<Rightarrow> (string \<Rightarrow> string) \<Rightarrow> iter \<Rightarrow> event list \<times> raised option" where
  "try_fetch_io c r it =
     (case then_do ([List_Models], None) (for_loop_io c r it) of
        (evs, Some (Exception e)) \<Rightarrow> then_do (evs, None) (print_io c (fetch_error_msg e))
      | (evs, res) \<Rightarrow> (evs, res))"

text \<open>The statements of the script in turn, and the exception that leaves it, if any.\<close>

definition script_io ::
  "console \<Rightarrow> (string \<Rightarrow> string) \<Rightarrow> world \<Rightarrow> event list \<times> raised option" where
  "script_io c r w =
     (let api_key = getenv (environ w) ''GEMINI_API_KEY'' in
      if \<not> truthy api_key then print_io c missing_key_msg
      else
        (case api_key of
           None \<Rightarrow> print_io c missing_key_msg
         | Some k \<Rightarrow>
             then_do ([Configure k], None)
            (then_do (print_io c progress_msg)
                     (try_fetch_io c r (list_models w k)))))"

text \<open>An exception that leaves the script ends the process with it.\<close>

fun exit_status :: "raised option \<Rightarrow> status" where
  "exit_status None = Completed"
| "exit_status (Some e) = Uncaught e"

definition run_io ::
  "console \<Rightarrow> (string \<Rightarrow> string) \<Rightarrow> world \<Rightarrow> event list \<times> status" where
  "run_io c r w = (case script_io c r w of (evs, res) \<Rightarrow> (evs, exit_status res))"

subsection \<open>What the specification speaks of\<close>

text \<open>The descriptors an iterator yields before it ends, and how it ends.\<close>

fun yielded :: "iter \<Rightarrow> model list" where
  "yielded Stop = []"
| "yielded (Raise e) = []"
| "yielded (Yield m rest) = m # yielded rest"

fun ending :: "iter \<Rightarrow> raised option" where
  "ending Stop = None"
| "ending (Raise e) = Some e"
| "ending (Yield m rest) = ending rest"

text \<open>The iterator that yields the descriptors of a list and then ends as told.\<close>

fun serve :: "model list \<Rightarrow> raised option \<Rightarrow> iter" where
  "serve [] None = Stop"
| "serve [] (Some e) = Raise e"
| "serve (m # ms) res = Yield m (serve ms res)"

text \<open>
  The capability filter in the words of the specification: a descriptor survives when the
  capability string is a member of its supported methods.
\<close>

definition has_capability :: "model \<Rightarrow> bool" where
  "has_capability m = (''generateContent'' \<in> set (supported_generation_methods m))"

definition surviving :: "model list \<Rightarrow> model list" where
  "surviving ms = filter has_capability ms"

text \<open>
  The block of a descriptor in the words of the specification: name line, display-name
  line, methods line, and a separator of thirty hyphens.
\<close>

definition block :: "(string \<Rightarrow> string) \<Rightarrow> model \<Rightarrow> string list" where
  "block r m =
     [''Model Name: '' @ name m,
      ''Display Name: '' @ display_name m,
      ''Methods: '' @ str_list r (supported_generation_methods m),
      replicate 30 (CHR ''-'')]"


text \<open>What the handler adds to the output, by the way the iteration ended.\<close>

fun handler_lines :: "raised option \<Rightarrow> string list" where
  "handler_lines (Some (Exception e)) = [fetch_error_msg e]"
| "handler_lines _ = []"

subsection \<open>Sample surroundings\<close>


definition gemini_pro :: model where
  "gemini_pro = \<lparr>name = ''models/gemini-pro'', display_name = ''Gemini Pro'',
     supported_generation_methods = [''generateContent'', ''countTokens'']\<rparr>"

definition embedding_001 :: model where
  "embedding_001 = \<lparr>name = ''models/embedding-001'', display_name = ''Embedding 001'',
     supported_generation_methods = [''embedContent'']\<rparr>"


text \<open>A descriptor whose methods come close to the capability string without being it.\<close>

definition near_miss :: model where
  "near_miss = \<lparr>name = ''models/near'', display_name = ''Near'',
     supported_generation_methods = [''generatecontent'', ''generateContent '', ''generate'']\<rparr>"







section \<open>Properties\<close>

subsection \<open>Auxiliary facts\<close>

lemma times_hyphen: "times ''-'' 30 = replicate 30 (CHR ''-'')"
  by (simp add: times_def concat_replicate_single)


lemma loop_body_block:
  "loop_body r m = (if has_capability m then map Print (block r m) else [])"
  by (simp add: loop_body_def has_capability_def block_def times_hyphen)


lemma for_loop_ending: "snd (for_loop r it) = ending it"
  by (induction it) (simp_all add: split_beta)

lemma for_loop_events:
  "fst (for_loop r it) = map Print (concat (map (block r) (surviving (yielded it))))"
  by (induction it) (simp_all add: loop_body_block surviving_def split_beta)

lemma for_loop_eq:
  "for_loop r it = (map Print (concat (map (block r) (surviving (yielded it)))), ending it)"
  by (metis for_loop_events for_loop_ending prod.collapse)





lemma yielded_serve: "yielded (serve ms res) = ms"
  by (induction ms res rule: serve.induct) simp_all

lemma ending_serve: "ending (serve ms res) = res"
  by (induction ms res rule: serve.induct) simp_all

lemma serve_yielded_ending: "serve (yielded it) (ending it) = it"
  by (induction it) simp_all











lemma then_do_append: "then_do (evs, None) x = (evs @ fst x, snd x)"
  by (cases x) simp









lemma for_loop_io_accepting:
  assumes "\<And>s. encodes c s"
  shows "for_loop_io c r it = for_loop r it"
proof (induction it)
  case (Yield m rest)
  have "loop_body_io c r m = (loop_body r m, None)"
    by (simp add: loop_body_io_def loop_body_def print_io_def assms)
  with Yield show ?case
    by (simp add: split_beta then_do_append)
qed simp_all

text \<open>On a console that takes every text, the second script is the first.\<close>

lemma run_io_accepting:
  assumes "\<And>s. encodes c s"
  shows "run_io c r w = run r w"
proof -
  have tf: "(case try_fetch_io c r it of (evs, res) \<Rightarrow> (evs, exit_status res)) = try_fetch r it"
    for it
  proof (cases "for_loop r it")
    case (Pair evs res)
    then show ?thesis
      by (cases res rule: handler_lines.cases)
         (simp_all add: try_fetch_io_def try_fetch_def for_loop_io_accepting [OF assms]
            print_io_def assms)
  qed
  show ?thesis
  proof (cases "getenv (environ w) ''GEMINI_API_KEY''")
    case None
    then show ?thesis
      by (simp add: run_io_def script_io_def run_def print_io_def assms)
  next
    case (Some k)
    obtain evs res where t: "try_fetch_io c r (list_models w k) = (evs, res)"
      by (cases "try_fetch_io c r (list_models w k)")
    from tf [of "list_models w k"] t
    have "try_fetch r (list_models w k) = (evs, exit_status res)"
      by simp
    with Some t show ?thesis
      by (simp add: run_io_def script_io_def run_def print_io_def assms)
  qed
qed




subsection \<open>The credential gate\<close>






subsection \<open>Failure of the listing\<close>




subsection \<open>The progress line\<close>



subsection \<open>How the run ends\<close>




text \<open>
  An interrupt or an exit of the interpreter is not an error: the handler lets it pass, and
  the run ends with it, in the first script as in the second.
\<close>

lemma interrupt_passes_handler:
  assumes "getenv (environ w) ''GEMINI_API_KEY'' = Some k" and "k \<noteq> []"
    and "ending (list_models w k) = Some (BaseException_only c)"
  shows "snd (run r w) = Uncaught (BaseException_only c)"
  using assms by (simp add: run_def try_fetch_def for_loop_eq)


subsection \<open>The capability filter\<close>





text \<open>
  Claim C7. Filtering the survivors again changes nothing, and the loop run over the
  survivors alone does what it does over the whole response. The test is a function of
  the descriptor: it leaves no event of its own, so the iteration of a descriptor is its
  block when the test holds and nothing when it does not.
\<close>

theorem filter_idempotent:
  "surviving (surviving ms) = surviving ms
   \<and> for_loop r (serve (surviving ms) res) = for_loop r (serve ms res)
   \<and> loop_body r m = (if has_capability m then map Print (block r m) else [])"
  by (simp add: for_loop_eq yielded_serve ending_serve loop_body_block)
     (simp add: surviving_def)

theorem filter_idempotent_witness:
  "surviving (surviving [gemini_pro, embedding_001, near_miss]) = [gemini_pro]"
proof -
  have s: "surviving [gemini_pro, embedding_001, near_miss] = [gemini_pro]"
    by (simp add: surviving_def has_capability_def gemini_pro_def embedding_001_def near_miss_def)
  from filter_idempotent [where ms = "[gemini_pro, embedding_001, near_miss]", THEN conjunct1] s
  show ?thesis
    by simp
qed

subsection \<open>Determinism\<close>




subsection \<open>The block of a descriptor\<close>



end
